theory Spec2Isabelle
  imports Complex_Main "HOL-Library.Log_Nat"
begin

section \<open>The JavaScript values the listing code handles\<close>

text \<open>
  The listing finder is TypeScript, and its records arrive as parsed JSON of unknown shape
  (\<open>unknown[]\<close>, \<open>Record<string, any>\<close>). The functions of the repository are embedded over
  an explicit datatype of JavaScript values, and the coercions the source applies
  (\<open>String(v)\<close>, \<open>Number(v)\<close>, truthiness, \<open>??\<close>, \<open>!= null\<close>) are defined after ECMAScript.

  Numbers are IEEE binary64 values. A finite one is represented by its exact rational value;
  \<open>-0\<close> is identified with \<open>0\<close> (no operation used by the repository tells them apart).
  Strings are Isabelle strings: the characters that JavaScript treats specially and that are
  modelled are the ASCII ones (white space for \<open>trim\<close>, letters for \<open>toUpperCase\<close>); a
  character beyond ASCII is carried through as its UTF-8 bytes, unchanged.
\<close>

datatype jsnum = Finite rat | NaN | PosInfinity | NegInfinity

datatype jsval =
    JUndefined
  | JNull
  | JBool bool
  | JNum jsnum
  | JStr string
  | JArr "jsval list"
  | JObj "(string \<times> jsval) list"

datatype js_error = TypeError string

subsection \<open>Strings\<close>

definition is_digit :: "char \<Rightarrow> bool" where
  "is_digit c = (c \<in> set ''0123456789'')"

definition digit_val :: "char \<Rightarrow> nat" where
  "digit_val c = of_char c - 48"

definition digit_char :: "nat \<Rightarrow> char" where
  "digit_char d = char_of (48 + d)"

text \<open>White space removed by \<open>String.prototype.trim\<close>: TAB, LF, VT, FF, CR and SP.\<close>

definition is_space :: "char \<Rightarrow> bool" where
  "is_space c = (of_char c \<in> {9, 10, 11, 12, 13, 32 :: nat})"

definition trim :: "string \<Rightarrow> string" where
  "trim s = rev (dropWhile is_space (rev (dropWhile is_space s)))"

definition upper_char :: "char \<Rightarrow> char" where
  "upper_char c = (let n = (of_char c :: nat) in if 97 \<le> n \<and> n \<le> 122 then char_of (n - 32) else c)"

definition toUpperCase :: "string \<Rightarrow> string" where
  "toUpperCase s = map upper_char s"

text \<open>The decimal digits of a natural number, and the number a digit string denotes.\<close>

fun decimal :: "nat \<Rightarrow> string" where
  "decimal n = (if n < 10 then [digit_char n] else decimal (n div 10) @ [digit_char (n mod 10)])"

declare decimal.simps [simp del]

definition digits_val :: "string \<Rightarrow> nat" where
  "digits_val s = foldl (\<lambda>a c. 10 * a + digit_val c) 0 s"

fun join :: "string \<Rightarrow> string list \<Rightarrow> string" where
  "join sep [] = []"
| "join sep [x] = x"
| "join sep (x # y # ys) = x @ sep @ join sep (y # ys)"

subsection \<open>Numbers: rounding to binary64\<close>

definition pow2 :: "int \<Rightarrow> rat" where
  "pow2 e = (if 0 \<le> e then 2 ^ nat e else 1 / 2 ^ nat (- e))"

definition pow10 :: "int \<Rightarrow> rat" where
  "pow10 e = (if 0 \<le> e then 10 ^ nat e else 1 / 10 ^ nat (- e))"

text \<open>For \<open>q > 0\<close>: the \<open>e\<close> with \<open>2^e \<le> q < 2^(e+1)\<close>.\<close>

definition binary_exponent :: "rat \<Rightarrow> int" where
  "binary_exponent q =
     (if 1 \<le> q then bitlen \<lfloor>q\<rfloor> - 1
      else let d = bitlen \<lfloor>1 / q\<rfloor> in if q = pow2 (1 - d) then 1 - d else - d)"

text \<open>For \<open>q > 0\<close>: the \<open>n\<close> with \<open>10^(n-1) \<le> q < 10^n\<close>.\<close>

definition decimal_exponent :: "rat \<Rightarrow> int" where
  "decimal_exponent q =
     (if 1 \<le> q then int (floorlog 10 (nat \<lfloor>q\<rfloor>))
      else let d = int (floorlog 10 (nat \<lfloor>1 / q\<rfloor>)) in if q = pow10 (1 - d) then 2 - d else 1 - d)"

definition round_half_even :: "rat \<Rightarrow> int" where
  "round_half_even x =
     (let f = \<lfloor>x\<rfloor>; d = x - of_int f
      in if d < 1 / 2 then f else if 1 / 2 < d then f + 1 else if even f then f else f + 1)"

text \<open>
  Round to nearest, ties to even, with 53 bits of precision, gradual underflow below
  \<open>2^-1022\<close> and overflow to an infinity from \<open>2^1024\<close> on.
\<close>

definition round_double :: "rat \<Rightarrow> jsnum" where
  "round_double q =
     (if q = 0 then Finite 0
      else let a = \<bar>q\<bar>;
               u = max (binary_exponent a - 52) (- 1074);
               m = round_half_even (a / pow2 u);
               v = of_int m * pow2 u
           in if 2 ^ 1024 \<le> v then (if 0 < q then PosInfinity else NegInfinity)
              else Finite (if 0 < q then v else - v))"

definition isFinite :: "jsnum \<Rightarrow> bool" where
  "isFinite n = (case n of Finite _ \<Rightarrow> True | _ \<Rightarrow> False)"

subsection \<open>\<open>Number(string)\<close>\<close>

text \<open>What may follow the digits of a decimal literal: nothing, or an exponent part.\<close>

definition ExponentPart :: "string \<Rightarrow> int option" where
  "ExponentPart s =
     (case s of
        [] \<Rightarrow> Some 0
      | c # r \<Rightarrow>
          if c = CHR ''e'' \<or> c = CHR ''E'' then
            (let neg = (r \<noteq> [] \<and> hd r = CHR ''-'');
                 ds = (if r \<noteq> [] \<and> (hd r = CHR ''-'' \<or> hd r = CHR ''+'') then tl r else r)
             in if ds \<noteq> [] \<and> list_all is_digit ds
                then Some (if neg then - int (digits_val ds) else int (digits_val ds))
                else None)
          else None)"

text \<open>\<open>digits . digits? exponent?\<close>, \<open>. digits exponent?\<close> or \<open>digits exponent?\<close>: its value.\<close>

definition StrUnsignedDecimalLiteral :: "string \<Rightarrow> rat option" where
  "StrUnsignedDecimalLiteral s =
     (let ip = takeWhile is_digit s;
          r1 = dropWhile is_digit s;
          has_dot = (r1 \<noteq> [] \<and> hd r1 = CHR ''.'');
          fp = (if has_dot then takeWhile is_digit (tl r1) else []);
          r2 = (if has_dot then dropWhile is_digit (tl r1) else r1)
      in if ip = [] \<and> fp = [] then None
         else case ExponentPart r2 of
                None \<Rightarrow> None
              | Some e \<Rightarrow> Some (of_nat (digits_val (ip @ fp)) * pow10 (e - int (length fp))))"

definition StrDecimalLiteral :: "string \<Rightarrow> jsnum option" where
  "StrDecimalLiteral s =
     (let neg = (s \<noteq> [] \<and> hd s = CHR ''-'');
          u = (if s \<noteq> [] \<and> (hd s = CHR ''-'' \<or> hd s = CHR ''+'') then tl s else s)
      in if u = ''Infinity'' then Some (if neg then NegInfinity else PosInfinity)
         else case StrUnsignedDecimalLiteral u of
                None \<Rightarrow> None
              | Some q \<Rightarrow> Some (round_double (if neg then - q else q)))"

definition radix_digit :: "char \<Rightarrow> nat option" where
  "radix_digit c =
     (let n = (of_char c :: nat)
      in if 48 \<le> n \<and> n \<le> 57 then Some (n - 48)
         else if 97 \<le> n \<and> n \<le> 102 then Some (n - 87)
         else if 65 \<le> n \<and> n \<le> 70 then Some (n - 55)
         else None)"

definition radix_val :: "nat \<Rightarrow> string \<Rightarrow> nat option" where
  "radix_val b ds =
     (if ds \<noteq> [] \<and> list_all (\<lambda>c. case radix_digit c of None \<Rightarrow> False | Some d \<Rightarrow> d < b) ds
      then Some (foldl (\<lambda>a c. b * a + (case radix_digit c of None \<Rightarrow> 0 | Some d \<Rightarrow> d)) 0 ds)
      else None)"

text \<open>\<open>0x\<close>, \<open>0o\<close> and \<open>0b\<close> literals (no sign).\<close>

definition NonDecimalIntegerLiteral :: "string \<Rightarrow> nat option" where
  "NonDecimalIntegerLiteral s =
     (case s of
        c0 # c1 # ds \<Rightarrow>
          if c0 \<noteq> CHR ''0'' then None
          else if c1 = CHR ''x'' \<or> c1 = CHR ''X'' then radix_val 16 ds
          else if c1 = CHR ''o'' \<or> c1 = CHR ''O'' then radix_val 8 ds
          else if c1 = CHR ''b'' \<or> c1 = CHR ''B'' then radix_val 2 ds
          else None
      | _ \<Rightarrow> None)"

definition StringToNumber :: "string \<Rightarrow> jsnum" where
  "StringToNumber s =
     (let t = trim s
      in if t = [] then Finite 0
         else case NonDecimalIntegerLiteral t of
                Some n \<Rightarrow> round_double (of_nat n)
              | None \<Rightarrow> (case StrDecimalLiteral t of Some x \<Rightarrow> x | None \<Rightarrow> NaN))"

subsection \<open>\<open>String(number)\<close>\<close>

text \<open>
  \<open>Number::toString\<close> prints the shortest decimal \<open>s \<times> 10^(n-k)\<close> (\<open>s\<close> of \<open>k\<close> digits) that
  reads back as the same binary64 value, the closest one if several do.
  \<open>digits_candidate q k\<close> is that \<open>(n, s)\<close> for a given \<open>k\<close>, if there is one. Seventeen
  digits always suffice for a binary64 value; for a rational that is not one,
  \<open>shortest_digits\<close> falls back on its first seventeen digits.
\<close>

definition digits_candidate :: "rat \<Rightarrow> nat \<Rightarrow> (int \<times> nat) option" where
  "digits_candidate q k =
     (let n = decimal_exponent q;
          scale = pow10 (n - int k);
          lo = \<lfloor>q / scale\<rfloor>;
          hi = lo + 1;
          ok_lo = (round_double (of_int lo * scale) = Finite q);
          ok_hi = (round_double (of_int hi * scale) = Finite q);
          d_lo = q - of_int lo * scale;
          d_hi = of_int hi * scale - q;
          up = (if hi = 10 ^ k then (n + 1, 10 ^ (k - 1)) else (n, nat hi))
      in if ok_lo \<and> (\<not> ok_hi \<or> d_lo < d_hi \<or> (d_lo = d_hi \<and> even lo)) then Some (n, nat lo)
         else if ok_hi then Some up
         else None)"

definition shortest_digits :: "rat \<Rightarrow> int \<times> nat" where
  "shortest_digits q =
     (case List.map_filter (digits_candidate q) [1..<18] of
        c # _ \<Rightarrow> c
      | [] \<Rightarrow> (decimal_exponent q, nat \<lfloor>q / pow10 (decimal_exponent q - 17)\<rfloor>))"

definition format_digits :: "int \<Rightarrow> string \<Rightarrow> string" where
  "format_digits n ds =
     (let k = int (length ds)
      in if k \<le> n \<and> n \<le> 21 then ds @ replicate (nat (n - k)) CHR ''0''
         else if 0 < n \<and> n \<le> 21 then take (nat n) ds @ ''.'' @ drop (nat n) ds
         else if - 6 < n \<and> n \<le> 0 then ''0.'' @ replicate (nat (- n)) CHR ''0'' @ ds
         else let e = n - 1;
                  es = (if e < 0 then ''-'' else ''+'') @ decimal (nat \<bar>e\<bar>)
              in if k = 1 then ds @ ''e'' @ es
                 else take 1 ds @ ''.'' @ drop 1 ds @ ''e'' @ es)"

definition Number_toString :: "jsnum \<Rightarrow> string" where
  "Number_toString x =
     (case x of
        NaN \<Rightarrow> ''NaN''
      | PosInfinity \<Rightarrow> ''Infinity''
      | NegInfinity \<Rightarrow> ''-Infinity''
      | Finite q \<Rightarrow>
          if q = 0 then ''0''
          else let (n, s) = shortest_digits \<bar>q\<bar>
               in (if q < 0 then ''-'' else '''') @ format_digits n (decimal s))"

subsection \<open>Coercions of arbitrary values\<close>

definition nullish :: "jsval \<Rightarrow> bool" where
  "nullish v = (v = JUndefined \<or> v = JNull)"

text \<open>\<open>ToBoolean\<close>: what \<open>v ? a : b\<close>, \<open>!v\<close> and \<open>v || w\<close> test.\<close>

definition truthy :: "jsval \<Rightarrow> bool" where
  "truthy v =
     (case v of
        JUndefined \<Rightarrow> False
      | JNull \<Rightarrow> False
      | JBool b \<Rightarrow> b
      | JNum n \<Rightarrow> n \<noteq> NaN \<and> n \<noteq> Finite 0
      | JStr s \<Rightarrow> s \<noteq> []
      | JArr _ \<Rightarrow> True
      | JObj _ \<Rightarrow> True)"

definition typeof :: "jsval \<Rightarrow> string" where
  "typeof v =
     (case v of
        JUndefined \<Rightarrow> ''undefined''
      | JNull \<Rightarrow> ''object''
      | JBool _ \<Rightarrow> ''boolean''
      | JNum _ \<Rightarrow> ''number''
      | JStr _ \<Rightarrow> ''string''
      | JArr _ \<Rightarrow> ''object''
      | JObj _ \<Rightarrow> ''object'')"

text \<open>
  \<open>String(v)\<close>. An array joins its elements with commas, \<open>null\<close> and \<open>undefined\<close> elements
  as empty strings; a plain object is \<open>[object Object]\<close>.
\<close>

fun ToString :: "jsval \<Rightarrow> string" where
  "ToString JUndefined = ''undefined''"
| "ToString JNull = ''null''"
| "ToString (JBool b) = (if b then ''true'' else ''false'')"
| "ToString (JNum n) = Number_toString n"
| "ToString (JStr s) = s"
| "ToString (JArr xs) =
     join '','' (map (\<lambda>x. if x = JUndefined \<or> x = JNull then [] else ToString x) xs)"
| "ToString (JObj _) = ''[object Object]''"

text \<open>\<open>Number(v)\<close>. An array or object is converted through its string.\<close>

definition ToNumber :: "jsval \<Rightarrow> jsnum" where
  "ToNumber v =
     (case v of
        JUndefined \<Rightarrow> NaN
      | JNull \<Rightarrow> Finite 0
      | JBool b \<Rightarrow> Finite (if b then 1 else 0)
      | JNum n \<Rightarrow> n
      | JStr s \<Rightarrow> StringToNumber s
      | JArr _ \<Rightarrow> StringToNumber (ToString v)
      | JObj _ \<Rightarrow> StringToNumber (ToString v))"

text \<open>
  Reading a property \<open>v.k\<close> of a value that is not \<open>null\<close> or \<open>undefined\<close>, for a key that
  no prototype defines (all the keys the repository reads from parsed JSON are such):
  the own property of an object, \<open>undefined\<close> otherwise. An object is given by the list
  of its properties in their order, each key once.
\<close>

definition get :: "jsval \<Rightarrow> string \<Rightarrow> jsval" where
  "get v k = (case v of JObj ps \<Rightarrow> (case map_of ps k of Some x \<Rightarrow> x | None \<Rightarrow> JUndefined) | _ \<Rightarrow> JUndefined)"

subsection \<open>\<open>JSON.stringify\<close>\<close>

definition hex_char :: "nat \<Rightarrow> char" where
  "hex_char d = (if d < 10 then char_of (48 + d) else char_of (87 + d))"

text \<open>\<open>QuoteJSONString\<close>: the quote, the backslash and the control characters are escaped.\<close>

definition json_escape :: "char \<Rightarrow> string" where
  "json_escape c =
     (let n = (of_char c :: nat)
      in if n = 34 then [CHR 0x5C, CHR 0x22]
         else if n = 92 then [CHR 0x5C, CHR 0x5C]
         else if n = 8 then [CHR 0x5C, CHR ''b'']
         else if n = 12 then [CHR 0x5C, CHR ''f'']
         else if n = 10 then [CHR 0x5C, CHR ''n'']
         else if n = 13 then [CHR 0x5C, CHR ''r'']
         else if n = 9 then [CHR 0x5C, CHR ''t'']
         else if n < 32 then [CHR 0x5C, CHR ''u'', CHR ''0'', CHR ''0'', hex_char (n div 16), hex_char (n mod 16)]
         else [c])"

definition QuoteJSONString :: "string \<Rightarrow> string" where
  "QuoteJSONString s = [CHR 0x22] @ concat (map json_escape s) @ [CHR 0x22]"

text \<open>
  \<open>JSON.stringify(v)\<close> for a value other than \<open>undefined\<close> (for which JavaScript returns
  \<open>undefined\<close>, not a string; the repository only serialises objects, strings and booleans).
  Inside an array \<open>undefined\<close> prints as \<open>null\<close>; a property whose value is \<open>undefined\<close>
  is left out; a number that is not finite prints as \<open>null\<close>.
\<close>

fun JSON_stringify :: "jsval \<Rightarrow> string"
  and stringify_elems :: "jsval list \<Rightarrow> string list"
  and stringify_props :: "(string \<times> jsval) list \<Rightarrow> string list" where
  "JSON_stringify JUndefined = ''null''"
| "JSON_stringify JNull = ''null''"
| "JSON_stringify (JBool b) = (if b then ''true'' else ''false'')"
| "JSON_stringify (JNum n) = (if isFinite n then Number_toString n else ''null'')"
| "JSON_stringify (JStr s) = QuoteJSONString s"
| "JSON_stringify (JArr xs) = ''['' @ join '','' (stringify_elems xs) @ '']''"
| "JSON_stringify (JObj ps) = ''{'' @ join '','' (stringify_props ps) @ ''}''"
| "stringify_elems [] = []"
| "stringify_elems (x # xs) = JSON_stringify x # stringify_elems xs"
| "stringify_props [] = []"
| "stringify_props (p # ps) =
     (if snd p = JUndefined then stringify_props ps
      else (QuoteJSONString (fst p) @ '':'' @ JSON_stringify (snd p)) # stringify_props ps)"

text \<open>\<open>JSON.stringify(v, null, 2)\<close>; the first argument is the current indentation.\<close>

fun JSON_stringify_indent :: "string \<Rightarrow> jsval \<Rightarrow> string"
  and indent_elems :: "string \<Rightarrow> jsval list \<Rightarrow> string list"
  and indent_props :: "string \<Rightarrow> (string \<times> jsval) list \<Rightarrow> string list" where
  "JSON_stringify_indent ind JUndefined = ''null''"
| "JSON_stringify_indent ind JNull = ''null''"
| "JSON_stringify_indent ind (JBool b) = (if b then ''true'' else ''false'')"
| "JSON_stringify_indent ind (JNum n) = (if isFinite n then Number_toString n else ''null'')"
| "JSON_stringify_indent ind (JStr s) = QuoteJSONString s"
| "JSON_stringify_indent ind (JArr xs) =
     (if xs = [] then ''[]''
      else ''['' @ [CHR 0x0A] @ ind @ ''  ''
           @ join ('','' @ [CHR 0x0A] @ ind @ ''  '') (indent_elems (ind @ ''  '') xs)
           @ [CHR 0x0A] @ ind @ '']'')"
| "JSON_stringify_indent ind (JObj ps) =
     (if indent_props (ind @ ''  '') ps = [] then ''{}''
      else ''{'' @ [CHR 0x0A] @ ind @ ''  ''
           @ join ('','' @ [CHR 0x0A] @ ind @ ''  '') (indent_props (ind @ ''  '') ps)
           @ [CHR 0x0A] @ ind @ ''}'')"
| "indent_elems ind [] = []"
| "indent_elems ind (x # xs) = JSON_stringify_indent ind x # indent_elems ind xs"
| "indent_props ind [] = []"
| "indent_props ind (p # ps) =
     (if snd p = JUndefined then indent_props ind ps
      else (QuoteJSONString (fst p) @ '': '' @ JSON_stringify_indent ind (snd p)) # indent_props ind ps)"

section \<open>The listing normalizer (\<open>main.ts\<close>)\<close>

definition DEFAULT_LOCATION :: string where
  "DEFAULT_LOCATION = ''Laval, QC''"

definition MAX_LISTINGS :: nat where
  "MAX_LISTINGS = 12"

text \<open>
  \<open>numberFromPriceLike(s)\<close>. The parameter is declared \<open>string | null\<close>, but it receives
  whatever the record holds: a truthy value that is not a string has no \<open>replace\<close> method,
  and the call throws.
\<close>

definition numberFromPriceLike :: "jsval \<Rightarrow> js_error + jsnum option" where
  "numberFromPriceLike s =
     (if \<not> truthy s then Inr None
      else case s of
             JStr t \<Rightarrow>
               (let raw = filter is_digit t
                in if raw = [] then Inr None
                   else let n = ToNumber (JStr raw)
                        in Inr (if isFinite n then Some n else None))
           | _ \<Rightarrow> Inl (TypeError ''s.replace is not a function''))"

definition first :: "jsval list \<Rightarrow> jsval" where
  "first vals = (case List.find (\<lambda>v. \<not> nullish v) vals of Some v \<Rightarrow> v | None \<Rightarrow> JNull)"

definition toCleanString :: "jsval \<Rightarrow> string" where
  "toCleanString v = (case v of JStr s \<Rightarrow> trim s | _ \<Rightarrow> [])"

record NormalizedListing =
  mls :: string
  url :: "string option"
  address :: "string option"
  price :: "jsnum option"
  beds :: "jsnum option"
  baths :: "jsnum option"
  type :: "string option"
  note_fr :: "string option"
  note_en :: "string option"

text \<open>The fixed bilingual text, \<open>MLS non trouve / MLS not found\<close> with an acute accent on the last letter of \<open>trouve\<close> (as UTF-8).\<close>

definition MLS_NOT_FOUND :: string where
  "MLS_NOT_FOUND = ''MLS non trouv'' @ [CHR 0xC3, CHR 0xA9] @ '' / MLS not found''"

text \<open>The aliases of the identifier, in the order \<open>first\<close> receives them; the last is \<open>MLS\<close> with the registered sign.\<close>

definition mls_aliases :: "string list" where
  "mls_aliases = [''mls'', ''MLS'', ''listingId'', ''listing_id'', ''MLS'' @ [CHR 0xC2, CHR 0xAE]]"

text \<open>The local \<open>mls\<close>: \<open>mlsRaw ? String(mlsRaw).trim() : null\<close>.\<close>

definition resolve_mls :: "jsval \<Rightarrow> string option" where
  "resolve_mls record =
     (let mlsRaw = first (map (get record) mls_aliases)
      in if truthy mlsRaw then Some (trim (ToString mlsRaw)) else None)"

text \<open>\<open>record.f ? String(record.f).trim() : null\<close>, for url, address, type and the notes.\<close>

definition text_field :: "jsval \<Rightarrow> string \<Rightarrow> string option" where
  "text_field record f =
     (if truthy (get record f) then Some (trim (ToString (get record f))) else None)"

text \<open>\<open>record.f != null ? Number(String(record.f).replace(re, "")) : null\<close>, for beds and baths.\<close>

definition count_field :: "(char \<Rightarrow> bool) \<Rightarrow> jsval \<Rightarrow> string \<Rightarrow> jsnum option" where
  "count_field keep record f =
     (if \<not> nullish (get record f)
      then Some (ToNumber (JStr (filter keep (ToString (get record f)))))
      else None)"

definition price_field :: "jsval \<Rightarrow> js_error + jsnum option" where
  "price_field record =
     (if \<not> nullish (get record ''price'')
      then Inr (Some (ToNumber (get record ''price'')))
      else numberFromPriceLike
             (first [get record ''priceText'', get record ''price_str'', get record ''askingPrice'']))"

text \<open>The object \<open>normalized\<close> built from one record of the input.\<close>

definition normalize_record :: "jsval \<Rightarrow> js_error + NormalizedListing" where
  "normalize_record record =
     (case price_field record of
        Inl e \<Rightarrow> Inl e
      | Inr p \<Rightarrow>
          Inr \<lparr> mls = (case resolve_mls record of Some m \<Rightarrow> m | None \<Rightarrow> MLS_NOT_FOUND),
                url = text_field record ''url'',
                address = text_field record ''address'',
                price = p,
                beds = count_field is_digit record ''beds'',
                baths = count_field (\<lambda>c. is_digit c \<or> c = CHR ''.'') record ''baths'',
                type = text_field record ''type'',
                note_fr = text_field record ''note_fr'',
                note_en = text_field record ''note_en'' \<rparr>)"

text \<open>A \<open>string | null\<close> used as a condition: \<open>null\<close> and the empty string are falsy.\<close>

definition nonempty :: "string option \<Rightarrow> bool" where
  "nonempty s = (case s of None \<Rightarrow> False | Some t \<Rightarrow> t \<noteq> [])"

text \<open>The identity key; \<open>n\<close> is \<open>out.length\<close> when the record is reached.\<close>

definition key :: "jsval \<Rightarrow> nat \<Rightarrow> string" where
  "key record n =
     (if nonempty (resolve_mls record) then ''MLS:'' @ toUpperCase (the (resolve_mls record))
      else if nonempty (text_field record ''url'') then ''URL:'' @ the (text_field record ''url'')
      else ''IDX:'' @ decimal n)"

text \<open>\<open>a ?? b\<close> on a field that is a value or \<open>null\<close>.\<close>

definition orElse :: "'a option \<Rightarrow> 'a option \<Rightarrow> 'a option" where
  "orElse a b = (case a of Some x \<Rightarrow> Some x | None \<Rightarrow> b)"

definition merge :: "NormalizedListing \<Rightarrow> NormalizedListing \<Rightarrow> NormalizedListing" where
  "merge prior normalized =
     prior \<lparr> address := orElse (address prior) (address normalized),
             price := orElse (price prior) (price normalized),
             beds := orElse (beds prior) (beds normalized),
             baths := orElse (baths prior) (baths normalized),
             type := orElse (type prior) (type normalized),
             note_fr := orElse (note_fr prior) (note_fr normalized),
             note_en := orElse (note_en prior) (note_en normalized) \<rparr>"

record dedupe_state =
  seen :: "string \<rightharpoonup> nat"
  out :: "NormalizedListing list"

text \<open>
  The \<open>if (!seen.has(key)) ... else ...\<close> of the loop body. Reading \<open>out[idx]\<close> beyond the
  end of \<open>out\<close> would give \<open>undefined\<close>, and reading its \<open>address\<close> would throw.
\<close>

definition accept :: "dedupe_state \<Rightarrow> string \<Rightarrow> NormalizedListing \<Rightarrow> js_error + dedupe_state" where
  "accept st k normalized =
     (case seen st k of
        None \<Rightarrow> Inr \<lparr> seen = (seen st)(k \<mapsto> length (out st)), out = out st @ [normalized] \<rparr>
      | Some idx \<Rightarrow>
          if idx < length (out st)
          then Inr (st \<lparr> out := (out st)[idx := merge (out st ! idx) normalized] \<rparr>)
          else Inl (TypeError ''Cannot read properties of undefined''))"

text \<open>The \<open>for\<close> loop, with its \<open>continue\<close> for entries that are not objects and its \<open>break\<close>.\<close>

fun dedupe_loop :: "dedupe_state \<Rightarrow> jsval list \<Rightarrow> js_error + dedupe_state" where
  "dedupe_loop st [] = Inr st"
| "dedupe_loop st (item # items) =
     (if \<not> truthy item \<or> typeof item \<noteq> ''object'' then dedupe_loop st items
      else case normalize_record item of
             Inl e \<Rightarrow> Inl e
           | Inr normalized \<Rightarrow>
               (case accept st (key item (length (out st))) normalized of
                  Inl e \<Rightarrow> Inl e
                | Inr st' \<Rightarrow>
                    if MAX_LISTINGS \<le> length (out st') then Inr st' else dedupe_loop st' items))"

definition normalizeAndDedupeListings :: "jsval list \<Rightarrow> js_error + NormalizedListing list" where
  "normalizeAndDedupeListings items =
     (case dedupe_loop \<lparr> seen = Map.empty, out = [] \<rparr> items of
        Inl e \<Rightarrow> Inl e
      | Inr st \<Rightarrow> Inr (take MAX_LISTINGS (out st)))"

subsection \<open>The workflow around the normalizer\<close>

text \<open>The object a \<open>NormalizedListing\<close> is at run time, as \<open>JSON.stringify\<close> sees it.\<close>

definition text_value :: "string option \<Rightarrow> jsval" where
  "text_value s = (case s of None \<Rightarrow> JNull | Some t \<Rightarrow> JStr t)"

definition number_value :: "jsnum option \<Rightarrow> jsval" where
  "number_value n = (case n of None \<Rightarrow> JNull | Some x \<Rightarrow> JNum x)"

definition listing_value :: "NormalizedListing \<Rightarrow> jsval" where
  "listing_value l =
     JObj [(''mls'', JStr (mls l)),
           (''url'', text_value (url l)),
           (''address'', text_value (address l)),
           (''price'', number_value (price l)),
           (''beds'', number_value (beds l)),
           (''baths'', number_value (baths l)),
           (''type'', text_value (type l)),
           (''note_fr'', text_value (note_fr l)),
           (''note_en'', text_value (note_en l))]"

definition buildResultsJson :: "NormalizedListing list \<Rightarrow> string" where
  "buildResultsJson listings =
     (let payload =
            JObj [(''listings'', JArr (map listing_value listings)),
                  (''schema'',
                   JObj [(''mls'', JStr ''string''),
                         (''url'', JStr ''string''),
                         (''price'', JStr ''number (CAD)''),
                         (''note_en'', JStr ''string''),
                         (''note_fr'', JStr ''string'')])];
          body = JSON_stringify_indent [] payload
      in [CHR 0x27] @ [CHR 0x60, CHR 0x60, CHR 0x60] @ ''json'' @ [CHR 0x0A] @ body
         @ [CHR 0x0A] @ [CHR 0x60, CHR 0x60, CHR 0x60] @ [CHR 0x27])"

definition option_entry :: "string \<Rightarrow> string \<Rightarrow> jsval" where
  "option_entry v l = JObj [(''value'', JStr v), (''label'', JStr l)]"

definition TYPE_OPTIONS :: jsval where
  "TYPE_OPTIONS =
     JArr [option_entry [] ''Any type / Tout type'',
           option_entry ''house'' ''House / Maison'',
           option_entry ''condo'' (''Condo / Copropri'' @ [CHR 0xC3, CHR 0xA9] @ ''t'' @ [CHR 0xC3, CHR 0xA9]),
           option_entry ''multiplex'' ''Multiplex / Plex'',
           option_entry ''land'' ''Land / Terrain'',
           option_entry ''commercial'' ''Commercial'']"

definition BEDS_OPTIONS :: jsval where
  "BEDS_OPTIONS =
     JArr [option_entry [] ''Beds: Any / Chambres: Peu importe'',
           option_entry ''1'' ''1+'',
           option_entry ''2'' ''2+'',
           option_entry ''3'' ''3+'',
           option_entry ''4'' ''4+'',
           option_entry ''5'' ''5+'']"

definition BATHS_OPTIONS :: jsval where
  "BATHS_OPTIONS =
     JArr [option_entry [] ''Baths: Any / Salles de bain: Peu importe'',
           option_entry ''1'' ''1+'',
           option_entry ''2'' ''2+'',
           option_entry ''3'' ''3+'']"

text \<open>The title, \<open>Quebec Listings\<close>, a bullet, \<open>Annonces Quebec\<close>, with its accents, as UTF-8.\<close>

definition WORKFLOW_TITLE :: string where
  "WORKFLOW_TITLE =
     ''Qu'' @ [CHR 0xC3, CHR 0xA9] @ ''bec Listings '' @ [CHR 0xE2, CHR 0x80, CHR 0xA2]
     @ '' Annonces Qu'' @ [CHR 0xC3, CHR 0xA9] @ ''bec''"

record GuardrailResult =
  tripwireTriggered :: "bool option"
  info :: jsval
  executionFailed :: "bool option"

definition guardrailsHasTripwire :: "GuardrailResult list \<Rightarrow> bool" where
  "guardrailsHasTripwire results = list_ex (\<lambda>r. tripwireTriggered r = Some True) results"

record WorkflowInput =
  input_as_text :: string
  input_variables :: jsval

text \<open>
  What \<open>runWorkflow\<close> resolves to: the guardrail failure object (built by
  \<open>buildGuardrailFailOutput\<close> from the guardrail results, which are all that is kept of it
  here), or the pair of the serialised and the structured output.
\<close>

datatype workflow_return =
    GuardrailFailOutput "GuardrailResult list"
  | WorkflowOutput (output_text: string) (output_parsed: jsval)

definition criteria_of :: "WorkflowInput \<Rightarrow> jsval \<Rightarrow> jsval" where
  "criteria_of workflow variables =
     JObj [(''location'',
            JStr (if toCleanString (get variables ''location'') \<noteq> []
                  then toCleanString (get variables ''location'') else DEFAULT_LOCATION)),
           (''priceMin'', JStr (toCleanString (get variables ''priceMin''))),
           (''priceMax'', JStr (toCleanString (get variables ''priceMax''))),
           (''beds'', JStr (toCleanString (get variables ''beds''))),
           (''baths'', JStr (toCleanString (get variables ''baths''))),
           (''type'', JStr (toCleanString (get variables ''type''))),
           (''keywords'',
            JStr (toCleanString (if truthy (get variables ''keywords'')
                                 then get variables ''keywords''
                                 else JStr (input_as_text workflow))))]"

definition listingsInput :: "jsval \<Rightarrow> jsval list" where
  "listingsInput variables = (case get variables ''listings'' of JArr xs \<Rightarrow> xs | _ \<Rightarrow> [])"

definition build_output :: "WorkflowInput \<Rightarrow> jsval \<Rightarrow> NormalizedListing list \<Rightarrow> jsval" where
  "build_output workflow variables listings =
     JObj [(''title'', JStr WORKFLOW_TITLE),
           (''criteria'', criteria_of workflow variables),
           (''typeOptions'', TYPE_OPTIONS),
           (''bedsOptions'', BEDS_OPTIONS),
           (''bathsOptions'', BATHS_OPTIONS),
           (''hasResults'', JBool (0 < length listings)),
           (''resultsJson'', JStr (buildResultsJson listings))]"

text \<open>
  \<open>runWorkflow\<close>; its first argument is what the awaited \<open>runGuardrails\<close> call returned.
  An exception of the normalizer rejects the promise.
\<close>

definition runWorkflow :: "GuardrailResult list \<Rightarrow> WorkflowInput \<Rightarrow> js_error + workflow_return" where
  "runWorkflow guardrailsResult workflow =
     (if guardrailsHasTripwire guardrailsResult then Inr (GuardrailFailOutput guardrailsResult)
      else let variables = (if nullish (input_variables workflow) then JObj [] else input_variables workflow)
           in case normalizeAndDedupeListings (listingsInput variables) of
                Inl e \<Rightarrow> Inl e
              | Inr listings \<Rightarrow>
                  (let output = build_output workflow variables listings
                   in Inr (WorkflowOutput (JSON_stringify output) output)))"

section \<open>The agent loop (\<open>agent.ts\<close>)\<close>

definition MAX_AGENT_STEPS :: nat where
  "MAX_AGENT_STEPS = 6"

datatype role = System | User | Assistant | Tool

text \<open>A tool call: its \<open>id\<close>, and the \<open>name\<close> and \<open>arguments\<close> of its \<open>function\<close>.\<close>

record ToolCall =
  call_id :: string
  fn_name :: string
  fn_arguments :: string

record ChatMessage =
  role :: role
  content :: string
  tool_call_id :: "string option"
  tool_calls :: "ToolCall list option"

text \<open>The message of a choice: its content may be \<open>null\<close>, its tool calls may be missing.\<close>

record ResponseMessage =
  msg_content :: "string option"
  msg_tool_calls :: "ToolCall list option"

record Choice =
  finish_reason :: string
  message :: "ResponseMessage option"

record AgentSource =
  src_title :: "string option"
  src_url :: string
  src_details :: "string option"

record AgentRunResult =
  listings :: "jsval list"
  sources :: "AgentSource list"
  notes_en :: "string option"
  notes_fr :: "string option"
  warnings :: "string list"
  rawResponse :: "string option"

text \<open>
  What one \<open>await callOpenAI(...)\<close> does: it throws (the text is
  \<open>String(error?.message || error)\<close>) or it resolves to a response with its choices.
\<close>

datatype call_outcome = Rejects string | Resolves "Choice list"

text \<open>
  What lies outside the program: the environment variable, the chat-completion endpoint
  (the outcome of the first, second, ... call), the two tool adapters, which catch their own
  failures and always return an object (its properties), and \<open>JSON.parse\<close> (\<open>None\<close> when
  it throws).
\<close>

record agent_env =
  OPENAI_API_KEY :: "string option"
  callOpenAI :: "nat \<Rightarrow> call_outcome"
  performWebSearch :: "jsval \<Rightarrow> (string \<times> jsval) list"
  fetchListingPage :: "jsval \<Rightarrow> (string \<times> jsval) list"
  JSON_parse :: "string \<Rightarrow> jsval option"

definition safeJsonParse :: "agent_env \<Rightarrow> string \<Rightarrow> jsval \<Rightarrow> jsval" where
  "safeJsonParse env v fallback = (case JSON_parse env v of Some x \<Rightarrow> x | None \<Rightarrow> fallback)"

text \<open>
  \<open>toolExecutors\<close> is an object literal, so \<open>toolExecutors[name]\<close> also finds what the
  literal inherits from \<open>Object.prototype\<close>. \<open>Object_prototype_call name args\<close> is what
  \<open>executor(args)\<close> does for such a name, in strict mode (\<open>this\<close> is \<open>undefined\<close>):
  \<open>Object(args)\<close> returns its argument (an object for \<open>null\<close>; the wrapper of a primitive
  serialises as the primitive), \<open>toString\<close> names the missing receiver, the other methods
  throw when they convert the receiver, and \<open>__proto__\<close> is the prototype object, which is
  not callable. It is \<open>None\<close> for a name that \<open>Object.prototype\<close> does not define.
\<close>

definition receiver_methods :: "string list" where
  "receiver_methods =
     [''valueOf'', ''toLocaleString'', ''hasOwnProperty'', ''propertyIsEnumerable'',
      ''__defineGetter__'', ''__defineSetter__'', ''__lookupGetter__'', ''__lookupSetter__'']"

definition Object_prototype_call :: "string \<Rightarrow> jsval \<Rightarrow> (js_error + jsval) option" where
  "Object_prototype_call nm args =
     (if nm = ''constructor'' then Some (Inr (if nullish args then JObj [] else args))
      else if nm = ''toString'' then Some (Inr (JStr ''[object Undefined]''))
      else if nm = ''isPrototypeOf''
        then Some (if truthy args \<and> typeof args = ''object''
                   then Inl (TypeError ''Cannot convert undefined or null to object'')
                   else Inr (JBool False))
      else if nm = ''__proto__'' then Some (Inl (TypeError ''executor is not a function''))
      else if nm \<in> set receiver_methods
        then Some (Inl (TypeError ''Cannot convert undefined or null to object''))
      else None)"

text \<open>\<open>toolExecutors[name]\<close> applied to the arguments; \<open>None\<close> when the lookup is \<open>undefined\<close>.\<close>

definition toolExecutors :: "agent_env \<Rightarrow> string \<Rightarrow> jsval \<Rightarrow> (js_error + jsval) option" where
  "toolExecutors env nm args =
     (if nm = ''search_listings'' then Some (Inr (JObj (performWebSearch env args)))
      else if nm = ''fetch_listing_page'' then Some (Inr (JObj (fetchListingPage env args)))
      else Object_prototype_call nm args)"

text \<open>The body of \<open>for (const toolCall of toolCalls)\<close> up to the value of \<open>toolResult\<close>.\<close>

definition tool_result :: "agent_env \<Rightarrow> ToolCall \<Rightarrow> js_error + jsval" where
  "tool_result env toolCall =
     (let args = safeJsonParse env
                   (if fn_arguments toolCall \<noteq> [] then fn_arguments toolCall else ''{}'')
                   (JObj [])
      in case toolExecutors env (fn_name toolCall) args of
           None \<Rightarrow> Inr (JObj [(''error'', JStr (''Unknown tool '' @ fn_name toolCall))])
         | Some r \<Rightarrow> r)"

definition tool_message :: "ToolCall \<Rightarrow> jsval \<Rightarrow> ChatMessage" where
  "tool_message toolCall toolResult =
     \<lparr> role = Tool, content = JSON_stringify toolResult,
       tool_call_id = Some (call_id toolCall), tool_calls = None \<rparr>"

fun run_tool_calls :: "agent_env \<Rightarrow> ChatMessage list \<Rightarrow> ToolCall list \<Rightarrow> js_error + ChatMessage list" where
  "run_tool_calls env msgs [] = Inr msgs"
| "run_tool_calls env msgs (toolCall # rest) =
     (case tool_result env toolCall of
        Inl e \<Rightarrow> Inl e
      | Inr toolResult \<Rightarrow> run_tool_calls env (msgs @ [tool_message toolCall toolResult]) rest)"

text \<open>One entry of \<open>sourcesRaw.map(...)\<close>, and the filter that follows.\<close>

definition string_or_null :: "jsval \<Rightarrow> string option" where
  "string_or_null v = (case v of JStr s \<Rightarrow> Some s | _ \<Rightarrow> None)"

definition map_source :: "jsval \<Rightarrow> AgentSource option" where
  "map_source source =
     (if \<not> truthy source \<or> typeof source \<noteq> ''object'' then None
      else case get source ''url'' of
             JStr u \<Rightarrow> Some \<lparr> src_title = string_or_null (get source ''title''), src_url = u,
                              src_details = string_or_null (get source ''details'') \<rparr>
           | _ \<Rightarrow> None)"

definition keep_source :: "AgentSource option \<Rightarrow> bool" where
  "keep_source item = (case item of None \<Rightarrow> False | Some s \<Rightarrow> src_url s \<noteq> [])"

text \<open>
  The branch for the finish reasons \<open>stop\<close> and \<open>length\<close>. When the content parses to
  \<open>null\<close>, reading \<open>parsed.listings\<close> throws.
\<close>

definition final_answer :: "agent_env \<Rightarrow> string list \<Rightarrow> string \<Rightarrow> js_error + AgentRunResult" where
  "final_answer env warns rawContent =
     (let parsed = safeJsonParse env rawContent (JObj [])
      in if parsed = JNull then Inl (TypeError ''Cannot read properties of null'')
         else Inr \<lparr> listings = (case get parsed ''listings'' of JArr xs \<Rightarrow> xs | _ \<Rightarrow> []),
                    sources = List.map_filter (\<lambda>x. x)
                                (filter keep_source
                                   (map map_source (case get parsed ''sources'' of JArr xs \<Rightarrow> xs | _ \<Rightarrow> []))),
                    notes_en = string_or_null (get parsed ''notes_en''),
                    notes_fr = string_or_null (get parsed ''notes_fr''),
                    warnings = warns,
                    rawResponse = Some rawContent \<rparr>)"

text \<open>The object returned after the loop.\<close>

definition failed_result :: "string list \<Rightarrow> AgentRunResult" where
  "failed_result warns =
     \<lparr> listings = [], sources = [], notes_en = None, notes_fr = None,
       warnings = warns, rawResponse = None \<rparr>"

text \<open>
  A run of \<open>runListingAgent\<close>: what the promise settles to (\<open>Inl\<close> when it rejects), the
  conversation it ends with, and how many times \<open>callOpenAI\<close> was called. The conversation
  is a local array that nothing reads after the run; for a run that a tool call makes throw
  it is given as it was before that turn.
\<close>

record agent_run =
  returned :: "js_error + AgentRunResult"
  conversation :: "ChatMessage list"
  model_calls :: nat

text \<open>
  The \<open>while (iterations < MAX_AGENT_STEPS)\<close> loop on its three variables. Each turn
  increments \<open>iterations\<close> and then makes the one call of the turn, so the calls made are
  the value of \<open>iterations\<close>.
\<close>

function agent_loop :: "agent_env \<Rightarrow> ChatMessage list \<Rightarrow> string list \<Rightarrow> nat \<Rightarrow> agent_run" where
  "agent_loop env msgs warns iters =
     (if iters < MAX_AGENT_STEPS then
        (case callOpenAI env iters of
           Rejects err \<Rightarrow>
             \<lparr> returned = Inr (failed_result (warns @ [err])), conversation = msgs, model_calls = iters + 1 \<rparr>
         | Resolves choices \<Rightarrow>
             (case choices of
                [] \<Rightarrow>
                  \<lparr> returned = Inr (failed_result (warns @ [''OpenAI API returned no choices''])),
                    conversation = msgs, model_calls = iters + 1 \<rparr>
              | choice # _ \<Rightarrow>
                  (let msg = (case message choice of
                                Some m \<Rightarrow> m
                              | None \<Rightarrow> \<lparr> msg_content = Some [], msg_tool_calls = None \<rparr>);
                       toolCalls = (case msg_tool_calls msg of Some tcs \<Rightarrow> tcs | None \<Rightarrow> []);
                       text = (case msg_content msg of Some c \<Rightarrow> c | None \<Rightarrow> [])
                   in if toolCalls \<noteq> [] then
                        (case run_tool_calls env
                                (msgs @ [\<lparr> role = Assistant, content = text, tool_call_id = None,
                                           tool_calls = Some toolCalls \<rparr>])
                                toolCalls of
                           Inl e \<Rightarrow> \<lparr> returned = Inl e, conversation = msgs, model_calls = iters + 1 \<rparr>
                         | Inr msgs' \<Rightarrow> agent_loop env msgs' warns (iters + 1))
                      else if finish_reason choice = ''stop'' \<or> finish_reason choice = ''length'' then
                        \<lparr> returned = final_answer env warns text, conversation = msgs,
                          model_calls = iters + 1 \<rparr>
                      else if finish_reason choice = ''content_filter'' then
                        \<lparr> returned = Inr (failed_result (warns @ [''OpenAI content filter blocked the response''])),
                          conversation = msgs, model_calls = iters + 1 \<rparr>
                      else
                        \<lparr> returned = Inr (failed_result (warns @ [''Unexpected finish reason: '' @ finish_reason choice])),
                          conversation = msgs, model_calls = iters + 1 \<rparr>)))
      else \<lparr> returned = Inr (failed_result warns), conversation = msgs, model_calls = iters \<rparr>)"
  by pat_completeness auto
termination
  by (relation "measure (\<lambda>(env, msgs, warns, iters). MAX_AGENT_STEPS - iters)") auto

declare agent_loop.simps [simp del]

text \<open>
  \<open>runListingAgent\<close>. The system prompt is the text \<open>buildSystemPrompt(criteria)\<close>
  returns; it is passed in as it is.
\<close>

definition runListingAgent :: "agent_env \<Rightarrow> string \<Rightarrow> string \<Rightarrow> agent_run" where
  "runListingAgent env systemPrompt prompt =
     (if \<not> nonempty (OPENAI_API_KEY env) then
        \<lparr> returned = Inr (failed_result [''OPENAI_API_KEY is not configured'']),
          conversation = [], model_calls = 0 \<rparr>
      else agent_loop env
             [\<lparr> role = System, content = systemPrompt, tool_call_id = None, tool_calls = None \<rparr>,
              \<lparr> role = User,
                content = ''User request: '' @ prompt @ [CHR 0x0A] @ ''Remember to return only JSON.'',
                tool_call_id = None, tool_calls = None \<rparr>]
             [] 0)"

section \<open>Notions used in the statements\<close>

text \<open>An entry the loop does not skip: \<open>item && typeof item === "object"\<close>.\<close>

definition is_record :: "jsval \<Rightarrow> bool" where
  "is_record item = (truthy item \<and> typeof item = ''object'')"

text \<open>
  What the loop maintains between iterations: an index stored in \<open>seen\<close> is a position of
  \<open>out\<close>, and a positional key \<open>IDX:m\<close> is stored only once position \<open>m\<close> is taken.
\<close>

definition seen_valid :: "dedupe_state \<Rightarrow> bool" where
  "seen_valid st =
     ((\<forall>k i. seen st k = Some i \<longrightarrow> i < length (out st))
      \<and> (\<forall>m. seen st (''IDX:'' @ decimal m) \<noteq> None \<longrightarrow> m < length (out st)))"










text \<open>The names an object literal inherits from \<open>Object.prototype\<close>.\<close>

definition inherited_names :: "string list" where
  "inherited_names = [''constructor'', ''toString'', ''isPrototypeOf'', ''__proto__''] @ receiver_methods"

text \<open>
  The key of a record that does not depend on the position: the identifier key, else the
  URL key; \<open>None\<close> for a record that gets a positional key.
\<close>

definition fixed_key :: "jsval \<Rightarrow> string option" where
  "fixed_key record =
     (if nonempty (resolve_mls record) then Some (''MLS:'' @ toUpperCase (the (resolve_mls record)))
      else if nonempty (text_field record ''url'') then Some (''URL:'' @ the (text_field record ''url''))
      else None)"

section \<open>Concrete inputs\<close>

text \<open>Records and environments on which the theorems below are evaluated.\<close>

definition bare :: "string \<Rightarrow> NormalizedListing" where
  "bare m = \<lparr> mls = m, url = None, address = None, price = None, beds = None, baths = None,
              type = None, note_fr = None, note_en = None \<rparr>"

definition numbered :: "nat \<Rightarrow> jsval" where
  "numbered n = JObj [(''mls'', JStr (''M'' @ decimal n))]"

definition numbered_listing :: "nat \<Rightarrow> NormalizedListing" where
  "numbered_listing n = bare (''M'' @ decimal n)"

definition twelve_records :: "jsval list" where
  "twelve_records = map numbered [0..<12]"

definition late_duplicate :: jsval where
  "late_duplicate = JObj [(''mls'', JStr ''M0''), (''address'', JStr ''1 Main St'')]"

definition tool_turn :: Choice where
  "tool_turn =
     \<lparr> finish_reason = ''tool_calls'',
       message = Some \<lparr> msg_content = None,
                        msg_tool_calls = Some [\<lparr> call_id = ''call_1'', fn_name = ''search_listings'',
                                                 fn_arguments = ''{}'' \<rparr>] \<rparr> \<rparr>"

definition always_tools_env :: agent_env where
  "always_tools_env =
     \<lparr> OPENAI_API_KEY = Some ''sk-test'',
       callOpenAI = (\<lambda>n. Resolves [tool_turn]),
       performWebSearch = (\<lambda>args. [(''error'', JStr ''TAVILY_API_KEY is not configured'')]),
       fetchListingPage = (\<lambda>args. [(''error'', JStr ''url is required'')]),
       JSON_parse = (\<lambda>s. if s = ''{}'' then Some (JObj []) else None) \<rparr>"

definition proto_turn :: Choice where
  "proto_turn =
     \<lparr> finish_reason = ''tool_calls'',
       message = Some \<lparr> msg_content = None,
                        msg_tool_calls = Some [\<lparr> call_id = ''call_1'', fn_name = ''__proto__'',
                                                 fn_arguments = ''{}'' \<rparr>] \<rparr> \<rparr>"

definition proto_env :: agent_env where
  "proto_env = always_tools_env \<lparr> callOpenAI := (\<lambda>n. Resolves [proto_turn]) \<rparr>"

definition scenario_listing :: jsval where
  "scenario_listing =
     JObj [(''mls'', JStr ''MLS123''), (''url'', JStr ''https://x.com''), (''price'', JNum (Finite 500000))]"

definition scenario_input :: WorkflowInput where
  "scenario_input =
     \<lparr> input_as_text = ''2 bedroom condo'',
       input_variables = JObj [(''location'', JStr ''Montreal, QC''), (''priceMax'', JStr ''750000''),
                               (''listings'', JArr [scenario_listing])] \<rparr>"

definition scenario_normalized :: NormalizedListing where
  "scenario_normalized = (bare ''MLS123'') \<lparr> url := Some ''https://x.com'', price := Some (Finite 500000) \<rparr>"



section \<open>The loop of the normalizer\<close>



lemma accept_new:
  "seen st k = None \<Longrightarrow>
   accept st k n = Inr \<lparr> seen = (seen st)(k \<mapsto> length (out st)), out = out st @ [n] \<rparr>"
  by (simp add: accept_def)

lemma accept_known:
  "seen st k = Some i \<Longrightarrow> i < length (out st) \<Longrightarrow>
   accept st k n = Inr (st \<lparr> out := (out st)[i := merge (out st ! i) n] \<rparr>)"
  by (simp add: accept_def)

lemma dedupe_loop_skip: "\<not> is_record item \<Longrightarrow> dedupe_loop st (item # items) = dedupe_loop st items"
  by (auto simp: is_record_def)

lemma dedupe_loop_step:
  "is_record item \<Longrightarrow> normalize_record item = Inr n \<Longrightarrow>
   accept st (key item (length (out st))) n = Inr st' \<Longrightarrow>
   dedupe_loop st (item # items) =
     (if MAX_LISTINGS \<le> length (out st') then Inr st' else dedupe_loop st' items)"
  by (auto simp: is_record_def)

text \<open>Once the cap is reached inside the loop, what follows in the input is not read.\<close>

lemma dedupe_loop_full:
  "length (out st) < MAX_LISTINGS \<Longrightarrow> dedupe_loop st xs = Inr st' \<Longrightarrow>
   MAX_LISTINGS \<le> length (out st') \<Longrightarrow> dedupe_loop st (xs @ ys) = Inr st'"
proof (induction xs arbitrary: st)
  case Nil
  then show ?case by simp
next
  case (Cons x xs)
  show ?case
  proof (cases "is_record x")
    case False
    with Cons show ?thesis
      by (simp add: dedupe_loop_skip del: dedupe_loop.simps)
  next
    case True
    from Cons.prems(2) True obtain n where n: "normalize_record x = Inr n"
      by (cases "normalize_record x") (auto simp: is_record_def)
    from Cons.prems(2) True n obtain st1 where st1: "accept st (key x (length (out st))) n = Inr st1"
      by (cases "accept st (key x (length (out st))) n") (auto simp: is_record_def)
    show ?thesis
    proof (cases "MAX_LISTINGS \<le> length (out st1)")
      case full: True
      with Cons.prems(2) True n st1 show ?thesis
        by (simp add: dedupe_loop_step [OF True n st1] del: dedupe_loop.simps)
    next
      case room: False
      with Cons.prems(2) True n st1 have "dedupe_loop st1 xs = Inr st'"
        by (simp add: dedupe_loop_step [OF True n st1] del: dedupe_loop.simps)
      with room Cons.IH [of st1] Cons.prems(3) have "dedupe_loop st1 (xs @ ys) = Inr st'"
        by simp
      with room show ?thesis
        using dedupe_loop_step [OF True n st1, of "xs @ ys"] by simp
    qed
  qed
qed

text \<open>
  Claim C2, as the code has it. Once 12 distinct records have been accepted the loop ends
  (\<open>if (out.length >= MAX_LISTINGS) break\<close> closes the very iteration that accepts the
  twelfth): whatever follows in the input, a duplicate of an accepted record or a new
  record, is not read, so a later duplicate is not merged and no record is added.
\<close>

theorem C2_input_after_cap_ignored:
  "normalizeAndDedupeListings xs = Inr ls \<Longrightarrow> length ls = MAX_LISTINGS \<Longrightarrow>
   normalizeAndDedupeListings (xs @ ys) = Inr ls"
proof -
  assume run: "normalizeAndDedupeListings xs = Inr ls" and full: "length ls = MAX_LISTINGS"
  from run obtain st where st: "dedupe_loop \<lparr> seen = Map.empty, out = [] \<rparr> xs = Inr st"
    and ls: "ls = take MAX_LISTINGS (out st)"
    by (auto simp: normalizeAndDedupeListings_def split: sum.splits)
  from ls full have "MAX_LISTINGS \<le> length (out st)"
    by (simp add: min_def split: if_splits)
  with st have "dedupe_loop \<lparr> seen = Map.empty, out = [] \<rparr> (xs @ ys) = Inr st"
    by (intro dedupe_loop_full) (simp_all add: MAX_LISTINGS_def)
  with ls show ?thesis
    by (simp add: normalizeAndDedupeListings_def)
qed

lemma twelve_records_run:
  "normalizeAndDedupeListings twelve_records = Inr (map numbered_listing [0..<12])"
  by code_simp

text \<open>
  Twelve records \<open>M0 ... M11\<close> and then \<open>{mls: "M0", address: "1 Main St"}\<close>: the last
  record has the key of the first, and the output is that of the twelve alone.
\<close>

theorem C2_input_after_cap_ignored_witness:
  "normalizeAndDedupeListings twelve_records = Inr (map numbered_listing [0..<12])
   \<and> length (map numbered_listing [0..<12]) = MAX_LISTINGS
   \<and> normalizeAndDedupeListings (twelve_records @ [late_duplicate]) = Inr (map numbered_listing [0..<12])"
proof -
  have full: "length (map numbered_listing [0..<12]) = MAX_LISTINGS"
    by (simp add: MAX_LISTINGS_def)
  from C2_input_after_cap_ignored [OF twelve_records_run full, of "[late_duplicate]"]
    twelve_records_run full
  show ?thesis by simp
qed

text \<open>
  The claim as stated fails on that input: the late record duplicates the key of the first
  accepted record and carries an address, the first record has none, and the output still
  has no address in its first record.
\<close>

theorem C2_late_duplicate_counterexample:
  "key late_duplicate 12 = key (numbered 0) 0
   \<and> normalize_record late_duplicate = Inr ((bare ''M0'') \<lparr> address := Some ''1 Main St'' \<rparr>)
   \<and> normalizeAndDedupeListings twelve_records = Inr (map numbered_listing [0..<12])
   \<and> normalizeAndDedupeListings (twelve_records @ [late_duplicate]) = Inr (map numbered_listing [0..<12])
   \<and> address (map numbered_listing [0..<12] ! 0) = None"
  by code_simp

section \<open>Two records with the same identifier\<close>





section \<open>Keys and the state of the loop\<close>

lemma digit_val_digit_char: "d < 10 \<Longrightarrow> digit_val (digit_char d) = d"
  by (simp add: digit_val_def digit_char_def)

lemma digits_val_snoc: "digits_val (s @ [c]) = 10 * digits_val s + digit_val c"
  by (simp add: digits_val_def)

lemma digits_val_decimal: "digits_val (decimal n) = n"
proof (induction n rule: decimal.induct)
  case (1 n)
  show ?case
  proof (cases "n < 10")
    case True
    then show ?thesis
      by (subst decimal.simps) (simp add: digits_val_def digit_val_digit_char)
  next
    case False
    with 1 have "digits_val (decimal (n div 10)) = n div 10" by simp
    with False show ?thesis
      by (subst decimal.simps) (simp add: digits_val_snoc digit_val_digit_char)
  qed
qed

lemma decimal_inj: "decimal m = decimal n \<Longrightarrow> m = n"
  by (metis digits_val_decimal)

lemma key_fixed: "fixed_key r = Some k \<Longrightarrow> key r n = k"
  by (auto simp: fixed_key_def key_def split: if_splits)

lemma key_positional: "fixed_key r = None \<Longrightarrow> key r n = ''IDX:'' @ decimal n"
  by (auto simp: fixed_key_def key_def split: if_splits)

lemma fixed_key_not_positional: "fixed_key r = Some k \<Longrightarrow> k \<noteq> ''IDX:'' @ s"
  by (auto simp: fixed_key_def split: if_splits)

lemma seen_valid_init: "seen_valid \<lparr> seen = Map.empty, out = [] \<rparr>"
  by (simp add: seen_valid_def)

text \<open>In a valid state a positional key is always new.\<close>

lemma positional_key_new:
  "seen_valid st \<Longrightarrow> fixed_key r = None \<Longrightarrow> seen st (key r (length (out st))) = None"
proof (rule ccontr)
  assume v: "seen_valid st" and f: "fixed_key r = None"
    and "seen st (key r (length (out st))) \<noteq> None"
  then have "seen st (''IDX:'' @ decimal (length (out st))) \<noteq> None"
    by (simp add: key_positional)
  with v have "length (out st) < length (out st)"
    unfolding seen_valid_def by blast
  then show False by simp
qed

lemma accept_valid:
  assumes v: "seen_valid st" and a: "accept st (key r (length (out st))) n = Inr st'"
  shows "seen_valid st' \<and> length (out st) \<le> length (out st')"
proof (cases "seen st (key r (length (out st)))")
  case None
  with a have st': "st' = \<lparr> seen = (seen st)(key r (length (out st)) \<mapsto> length (out st)), out = out st @ [n] \<rparr>"
    by (simp add: accept_def)
  have "m < Suc (length (out st))"
    if "((seen st)(key r (length (out st)) \<mapsto> length (out st))) (''IDX:'' @ decimal m) \<noteq> None" for m
  proof (cases "key r (length (out st)) = ''IDX:'' @ decimal m")
    case True
    have "fixed_key r = None"
    proof (cases "fixed_key r")
      case None
      then show ?thesis .
    next
      case (Some a)
      from key_fixed [OF Some, of "length (out st)"] True
        fixed_key_not_positional [OF Some, of "decimal m"]
      show ?thesis by simp
    qed
    with True have "decimal (length (out st)) = decimal m"
      by (simp add: key_positional)
    then show ?thesis
      by (auto dest: decimal_inj)
  next
    case False
    with that have "seen st (''IDX:'' @ decimal m) \<noteq> None"
      by (simp split: if_splits)
    with v have "m < length (out st)"
      unfolding seen_valid_def by blast
    then show ?thesis by simp
  qed
  moreover have "i < Suc (length (out st))"
    if "((seen st)(key r (length (out st)) \<mapsto> length (out st))) k = Some i" for k i
  proof (cases "k = key r (length (out st))")
    case True
    with that show ?thesis by simp
  next
    case False
    with that have "seen st k = Some i" by simp
    with v have "i < length (out st)"
      unfolding seen_valid_def by blast
    then show ?thesis by simp
  qed
  ultimately show ?thesis
    unfolding st' seen_valid_def by simp
next
  case (Some i)
  with v have "i < length (out st)"
    unfolding seen_valid_def by blast
  with Some a have "st' = st \<lparr> out := (out st)[i := merge (out st ! i) n] \<rparr>"
    by (simp add: accept_def)
  with v show ?thesis
    by (simp add: seen_valid_def)
qed


text \<open>
  Records whose fixed keys are new and pairwise distinct (records with a positional key
  among them or not) are never merged: each takes the next position, up to the cap.
\<close>

lemma dedupe_loop_no_merge:
  assumes "seen_valid st"
    and "list_all2 (\<lambda>x n. is_record x \<and> normalize_record x = Inr n) xs ns"
    and "distinct (List.map_filter fixed_key xs)"
    and "\<forall>k \<in> set (List.map_filter fixed_key xs). seen st k = None"
    and "length (out st) < MAX_LISTINGS"
  shows "\<exists>st'. dedupe_loop st xs = Inr st'
           \<and> out st' = out st @ take (MAX_LISTINGS - length (out st)) ns"
  using assms
proof (induction xs arbitrary: st ns)
  case Nil
  then show ?case by simp
next
  case (Cons x xs)
  from Cons.prems(2) obtain n ns' where ns: "ns = n # ns'"
    and x: "is_record x" "normalize_record x = Inr n"
    and rest: "list_all2 (\<lambda>x n. is_record x \<and> normalize_record x = Inr n) xs ns'"
    by (auto simp: list_all2_Cons1)
  let ?k = "key x (length (out st))"
  have new: "seen st ?k = None"
  proof (cases "fixed_key x")
    case None
    with Cons.prems(1) show ?thesis by (rule positional_key_new)
  next
    case (Some k)
    with Cons.prems(4) show ?thesis
      by (simp add: key_fixed List.map_filter_simps)
  qed
  let ?st1 = "\<lparr> seen = (seen st)(?k \<mapsto> length (out st)), out = out st @ [n] \<rparr>"
  have acc: "accept st ?k n = Inr ?st1"
    using new by (rule accept_new)
  have step: "dedupe_loop st (x # xs) =
      (if MAX_LISTINGS \<le> length (out ?st1) then Inr ?st1 else dedupe_loop ?st1 xs)"
    using x acc by (rule dedupe_loop_step)
  show ?case
  proof (cases "MAX_LISTINGS \<le> length (out ?st1)")
    case True
    with Cons.prems(5) have "MAX_LISTINGS - length (out st) = 1" by simp
    with True step ns show ?thesis by simp
  next
    case False
    have v1: "seen_valid ?st1"
      using accept_valid [OF Cons.prems(1) acc] by simp
    have d1: "distinct (List.map_filter fixed_key xs)"
      using Cons.prems(3) by (cases "fixed_key x") (simp_all add: List.map_filter_simps)
    have f1: "\<forall>k \<in> set (List.map_filter fixed_key xs). seen ?st1 k = None"
    proof
      fix k assume k: "k \<in> set (List.map_filter fixed_key xs)"
      then obtain y where "fixed_key y = Some k"
        by (auto simp: List.map_filter_def)
      then have notidx: "k \<noteq> ''IDX:'' @ decimal (length (out st))"
        by (rule fixed_key_not_positional)
      have "k \<noteq> ?k"
      proof (cases "fixed_key x")
        case None
        with notidx show ?thesis by (simp add: key_positional)
      next
        case (Some kx)
        with Cons.prems(3) k show ?thesis
          by (auto simp: key_fixed List.map_filter_simps)
      qed
      moreover from Cons.prems(4) k have "seen st k = None"
        by (cases "fixed_key x") (simp_all add: List.map_filter_simps)
      ultimately show "seen ?st1 k = None" by simp
    qed
    from False have l1: "length (out ?st1) < MAX_LISTINGS" by simp
    from Cons.IH [OF v1 rest d1 f1 l1] obtain st' where
      st': "dedupe_loop ?st1 xs = Inr st'"
      "out st' = out ?st1 @ take (MAX_LISTINGS - length (out ?st1)) ns'"
      by blast
    from l1 have "MAX_LISTINGS - length (out st) = Suc (MAX_LISTINGS - length (out ?st1))"
      by simp
    then have "take (MAX_LISTINGS - length (out st)) (n # ns')
        = n # take (MAX_LISTINGS - length (out ?st1)) ns'"
      by simp
    with st' False step ns show ?thesis by simp
  qed
qed

lemma normalize_no_merge:
  assumes "list_all2 (\<lambda>x n. is_record x \<and> normalize_record x = Inr n) xs ns"
    and "distinct (List.map_filter fixed_key xs)"
  shows "normalizeAndDedupeListings xs = Inr (take MAX_LISTINGS ns)"
proof -
  have "\<exists>st'. dedupe_loop \<lparr> seen = Map.empty, out = [] \<rparr> xs = Inr st'
      \<and> out st' = out \<lparr> seen = Map.empty, out = [] \<rparr>
          @ take (MAX_LISTINGS - length (out \<lparr> seen = Map.empty, out = [] \<rparr>)) ns"
    using seen_valid_init assms
    by (rule dedupe_loop_no_merge) (simp_all add: MAX_LISTINGS_def)
  then show ?thesis
    by (auto simp: normalizeAndDedupeListings_def)
qed

section \<open>When the normalizer throws\<close>


text \<open>
  The price coercion throws exactly when \<open>price\<close> is absent and the first of
  \<open>priceText\<close>, \<open>price_str\<close>, \<open>askingPrice\<close> that is present is truthy and not a string.
\<close>

lemma price_field_throws_iff:
  "price_field x = Inl e \<longleftrightarrow>
     nullish (get x ''price'')
     \<and> truthy (first [get x ''priceText'', get x ''price_str'', get x ''askingPrice''])
     \<and> typeof (first [get x ''priceText'', get x ''price_str'', get x ''askingPrice'']) \<noteq> ''string''
     \<and> e = TypeError ''s.replace is not a function''"
  by (cases "first [get x ''priceText'', get x ''price_str'', get x ''askingPrice'']")
     (auto simp: price_field_def numberFromPriceLike_def typeof_def Let_def)


section \<open>The cap on the output\<close>



section \<open>Bedrooms and bathrooms without digits\<close>

lemma StringToNumber_empty: "StringToNumber [] = Finite 0"
  by (simp add: StringToNumber_def trim_def)

lemma filter_no_match: "\<not> list_ex P s \<Longrightarrow> filter P s = []"
  by (induction s) auto

text \<open>
  Claim C10. For every raw record whose \<open>beds\<close> field is present (not \<open>null\<close> or
  \<open>undefined\<close>) and whose text \<open>String(record.beds)\<close> contains no digit, the normalized
  \<open>beds\<close> is the number 0, not absent; the same holds for \<open>baths\<close> when the text contains
  no digit and no decimal point.
\<close>

theorem C10_no_digits_gives_zero:
  "(\<not> nullish (get record ''beds'') \<and> \<not> list_ex is_digit (ToString (get record ''beds''))
      \<longrightarrow> count_field is_digit record ''beds'' = Some (Finite 0)
          \<and> (\<forall>n. normalize_record record = Inr n \<longrightarrow> beds n = Some (Finite 0)))
   \<and> (\<not> nullish (get record ''baths'')
        \<and> \<not> list_ex (\<lambda>c. is_digit c \<or> c = CHR ''.'') (ToString (get record ''baths''))
      \<longrightarrow> count_field (\<lambda>c. is_digit c \<or> c = CHR ''.'') record ''baths'' = Some (Finite 0)
          \<and> (\<forall>n. normalize_record record = Inr n \<longrightarrow> baths n = Some (Finite 0)))"
  by (auto simp: count_field_def normalize_record_def ToNumber_def StringToNumber_empty
        filter_no_match split: sum.splits)

text \<open>The record \<open>{beds: "studio", baths: "n/a"}\<close>.\<close>

theorem C10_no_digits_gives_zero_witness:
  "\<not> nullish (get (JObj [(''beds'', JStr ''studio''), (''baths'', JStr ''n/a'')]) ''beds'')
   \<and> \<not> list_ex is_digit (ToString (get (JObj [(''beds'', JStr ''studio''), (''baths'', JStr ''n/a'')]) ''beds''))
   \<and> \<not> nullish (get (JObj [(''beds'', JStr ''studio''), (''baths'', JStr ''n/a'')]) ''baths'')
   \<and> \<not> list_ex (\<lambda>c. is_digit c \<or> c = CHR ''.'')
          (ToString (get (JObj [(''beds'', JStr ''studio''), (''baths'', JStr ''n/a'')]) ''baths''))
   \<and> normalize_record (JObj [(''beds'', JStr ''studio''), (''baths'', JStr ''n/a'')])
       = Inr ((bare MLS_NOT_FOUND) \<lparr> beds := Some (Finite 0), baths := Some (Finite 0) \<rparr>)"
proof -
  let ?r = "JObj [(''beds'', JStr ''studio''), (''baths'', JStr ''n/a'')]"
  have present: "\<not> nullish (get ?r ''beds'')" "\<not> nullish (get ?r ''baths'')"
    by (simp_all add: get_def nullish_def)
  have nodigit: "\<not> list_ex is_digit (ToString (get ?r ''beds''))"
    "\<not> list_ex (\<lambda>c. is_digit c \<or> c = CHR ''.'') (ToString (get ?r ''baths''))"
    by (simp_all add: get_def is_digit_def)
  have run: "\<exists>n. normalize_record ?r = Inr n"
    by (simp add: normalize_record_def price_field_def get_def nullish_def first_def
          numberFromPriceLike_def truthy_def)
  then obtain n where n: "normalize_record ?r = Inr n" ..
  from C10_no_digits_gives_zero [of ?r] present nodigit n
  have "beds n = Some (Finite 0)" "baths n = Some (Finite 0)"
    by blast+
  moreover have "normalize_record ?r = Inr ((bare MLS_NOT_FOUND) \<lparr> beds := beds n, baths := baths n \<rparr>)"
    using n
    by (auto simp: normalize_record_def price_field_def get_def nullish_def first_def
          numberFromPriceLike_def truthy_def resolve_mls_def mls_aliases_def text_field_def bare_def
          split: sum.splits)
  ultimately show ?thesis
    using present nodigit by simp
qed

section \<open>The price\<close>

lemma round_half_even_nonneg: "0 \<le> x \<Longrightarrow> 0 \<le> round_half_even x"
  by (auto simp: round_half_even_def Let_def)

lemma pow2_pos: "0 < pow2 e"
  by (simp add: pow2_def)

lemma round_double_nonneg:
  "0 \<le> q \<Longrightarrow> round_double q = PosInfinity \<or> (\<exists>v. round_double q = Finite v \<and> 0 \<le> v)"
proof (cases "q = 0")
  case True
  then show ?thesis by (simp add: round_double_def)
next
  case False
  assume "0 \<le> q"
  with False have pos: "0 < q" by simp
  let ?u = "max (binary_exponent \<bar>q\<bar> - 52) (- 1074)"
  have "0 \<le> \<bar>q\<bar> / pow2 ?u"
    using pow2_pos [of ?u] by simp
  then have "0 \<le> round_half_even (\<bar>q\<bar> / pow2 ?u)"
    by (rule round_half_even_nonneg)
  then have "(0::rat) \<le> of_int (round_half_even (\<bar>q\<bar> / pow2 ?u)) * pow2 ?u"
    using pow2_pos [of ?u] by simp
  with pos show ?thesis
    by (simp add: round_double_def Let_def)
qed

lemma digit_not_space: "is_digit c \<Longrightarrow> \<not> is_space c"
  by (auto simp: is_digit_def is_space_def)

lemma trim_digits: "list_all is_digit s \<Longrightarrow> trim s = s"
proof -
  assume d: "list_all is_digit s"
  then have "s = [] \<or> \<not> is_space (hd s)"
    by (cases s) (auto dest: digit_not_space)
  then have 1: "dropWhile is_space s = s"
    by (simp add: dropWhile_eq_self_iff)
  from d have "list_all is_digit (rev s)"
    by (simp add: list_all_iff)
  then have "rev s = [] \<or> \<not> is_space (hd (rev s))"
    by (cases "rev s") (auto dest: digit_not_space)
  then have "dropWhile is_space (rev s) = rev s"
    by (simp only: dropWhile_eq_self_iff)
  with 1 show ?thesis
    by (simp add: trim_def)
qed

lemma takeWhile_digits: "list_all is_digit s \<Longrightarrow> takeWhile is_digit s = s \<and> dropWhile is_digit s = []"
  by (simp add: list_all_iff)

text \<open>\<open>Number\<close> of a non-empty digit string is the binary64 value nearest to what the digits denote.\<close>

lemma StringToNumber_digits:
  assumes ne: "s \<noteq> []" and d: "list_all is_digit s"
  shows "StringToNumber s = round_double (of_nat (digits_val s))"
proof -
  from ne d obtain c cs where s: "s = c # cs" and c: "is_digit c" and cs: "list_all is_digit cs"
    by (cases s) auto
  have nd: "NonDecimalIntegerLiteral s = None"
  proof (cases cs)
    case Nil
    with s show ?thesis by (simp add: NonDecimalIntegerLiteral_def)
  next
    case (Cons c1 ds)
    with cs have "is_digit c1" by simp
    then have "c1 \<noteq> CHR ''x''" "c1 \<noteq> CHR ''X''" "c1 \<noteq> CHR ''o''" "c1 \<noteq> CHR ''O''"
      "c1 \<noteq> CHR ''b''" "c1 \<noteq> CHR ''B''"
      by (auto simp: is_digit_def)
    with s Cons show ?thesis by (simp add: NonDecimalIntegerLiteral_def)
  qed
  from c have sign: "c \<noteq> CHR ''-''" "c \<noteq> CHR ''+''" "c \<noteq> CHR ''I''"
    by (auto simp: is_digit_def)
  from takeWhile_digits [OF d] have tw: "takeWhile is_digit s = s" and dw: "dropWhile is_digit s = []"
    by simp_all
  have un: "StrUnsignedDecimalLiteral s = Some (of_nat (digits_val s))"
    using ne by (simp add: StrUnsignedDecimalLiteral_def Let_def tw dw ExponentPart_def pow10_def)
  have "StrDecimalLiteral s = Some (round_double (of_nat (digits_val s)))"
    using sign un s by (simp add: StrDecimalLiteral_def)
  with nd ne trim_digits [OF d] show ?thesis
    by (simp add: StringToNumber_def)
qed

text \<open>
  The free-text path is guarded: what \<open>numberFromPriceLike\<close> returns is \<open>null\<close> or a finite
  number that is not negative.
\<close>

lemma numberFromPriceLike_finite:
  assumes "numberFromPriceLike s = Inr (Some n)"
  shows "\<exists>v. n = Finite v \<and> 0 \<le> v"
proof -
  from assms obtain t where t: "s = JStr t" and ne: "filter is_digit t \<noteq> []"
    and n: "n = StringToNumber (filter is_digit t)" and fin: "isFinite n"
    by (auto simp: numberFromPriceLike_def Let_def ToNumber_def split: if_splits jsval.splits)
  have "list_all is_digit (filter is_digit t)"
    by (simp add: list_all_iff)
  with ne n have "n = round_double (of_nat (digits_val (filter is_digit t)))"
    by (simp add: StringToNumber_digits)
  with round_double_nonneg [of "of_nat (digits_val (filter is_digit t))"] fin show ?thesis
    by (auto simp: isFinite_def)
qed

text \<open>
  Claim C4 on the code. The direct path stores \<open>Number(record.price)\<close> as it is, with no
  test of the result: for \<open>{price: "abc"}\<close> the normalized price is \<open>NaN\<close>, which is
  neither absent nor a finite number, and for \<open>{price: -5}\<close> it is the negative number
  \<open>-5\<close>.
\<close>

theorem C4_direct_price_unguarded:
  "normalizeAndDedupeListings [JObj [(''price'', JStr ''abc'')]]
     = Inr [(bare MLS_NOT_FOUND) \<lparr> price := Some NaN \<rparr>]
   \<and> \<not> isFinite NaN
   \<and> normalizeAndDedupeListings [JObj [(''price'', JNum (Finite (- 5)))]]
     = Inr [(bare MLS_NOT_FOUND) \<lparr> price := Some (Finite (- 5)) \<rparr>]"
proof -
  have 1: "normalizeAndDedupeListings [JObj [(''price'', JStr ''abc'')]]
     = Inr [(bare MLS_NOT_FOUND) \<lparr> price := Some NaN \<rparr>]"
    by code_simp
  have n: "normalize_record (JObj [(''price'', JNum (Finite (- 5)))])
      = Inr ((bare MLS_NOT_FOUND) \<lparr> price := Some (Finite (- 5)) \<rparr>)"
    by (simp add: normalize_record_def price_field_def get_def nullish_def ToNumber_def
          resolve_mls_def mls_aliases_def first_def truthy_def text_field_def count_field_def
          bare_def)
  have r: "is_record (JObj [(''price'', JNum (Finite (- 5)))])"
    by (simp add: is_record_def truthy_def typeof_def)
  have 2: "normalizeAndDedupeListings [JObj [(''price'', JNum (Finite (- 5)))]]
     = Inr (take MAX_LISTINGS [(bare MLS_NOT_FOUND) \<lparr> price := Some (Finite (- 5)) \<rparr>])"
    by (rule normalize_no_merge) (simp_all add: r n List.map_filter_simps split: option.splits)
  from 1 2 show ?thesis
    by (simp add: isFinite_def MAX_LISTINGS_def)
qed

section \<open>Records without an identifier\<close>

text \<open>A record none of whose aliases holds a truthy value gets the fixed text.\<close>

lemma no_identifier_sentinel:
  "resolve_mls r = None \<Longrightarrow> normalize_record r = Inr n \<Longrightarrow> mls n = MLS_NOT_FOUND"
  by (auto simp: normalize_record_def split: sum.splits)

text \<open>
  Two records that get no identifier key are kept apart unless they have the same URL
  key: a record with a positional key is never merged.
\<close>

lemma no_identifier_kept_apart:
  assumes "is_record r1" and "is_record r2"
    and "normalize_record r1 = Inr n1" and "normalize_record r2 = Inr n2"
    and "fixed_key r1 = None \<or> fixed_key r1 \<noteq> fixed_key r2"
  shows "normalizeAndDedupeListings [r1, r2] = Inr [n1, n2]"
proof -
  have "normalizeAndDedupeListings [r1, r2] = Inr (take MAX_LISTINGS [n1, n2])"
    using assms
    by (intro normalize_no_merge) (auto simp: List.map_filter_simps split: option.splits)
  then show ?thesis
    by (simp add: MAX_LISTINGS_def)
qed

text \<open>
  Claim C7 on the code. For the record \<open>{mls: "   "}\<close> the local \<open>mls\<close> is the empty
  string: it is falsy, so the record has no identifier for the key and gets the positional
  key \<open>IDX:0\<close>; but it is not \<open>null\<close>, so \<open>mls ?? "MLS non trouve / MLS not found"\<close> keeps
  it, and the normalized \<open>mls\<close> is the empty string instead of the fixed text.
\<close>

theorem C7_blank_identifier_keeps_empty_mls:
  "resolve_mls (JObj [(''mls'', JStr ''   '')]) = Some []
   \<and> fixed_key (JObj [(''mls'', JStr ''   '')]) = None
   \<and> key (JObj [(''mls'', JStr ''   '')]) 0 = ''IDX:0''
   \<and> normalizeAndDedupeListings [JObj [(''mls'', JStr ''   '')]] = Inr [bare []]
   \<and> mls (bare []) \<noteq> MLS_NOT_FOUND"
  by code_simp

section \<open>Tool calls\<close>

lemma Object_prototype_call_None:
  "nm \<notin> set inherited_names \<Longrightarrow> Object_prototype_call nm args = None"
  by (simp add: inherited_names_def Object_prototype_call_def)



text \<open>
  For a name that is neither registered nor inherited from \<open>Object.prototype\<close>, the message
  appended is the serialised object \<open>{"error":"Unknown tool <name>"}\<close>, the name escaped as
  JSON escapes a string, tagged with the identifier of the call.
\<close>

lemma unknown_tool_message:
  assumes "fn_name tc \<noteq> ''search_listings''" and "fn_name tc \<noteq> ''fetch_listing_page''"
    and "fn_name tc \<notin> set inherited_names"
  shows "run_tool_calls env msgs [tc] =
           Inr (msgs @ [\<lparr> role = Tool,
                          content = ''{'' @ QuoteJSONString ''error'' @ '':''
                                    @ QuoteJSONString (''Unknown tool '' @ fn_name tc) @ ''}'',
                          tool_call_id = Some (call_id tc), tool_calls = None \<rparr>])"
  using assms
  by (simp add: tool_result_def toolExecutors_def Object_prototype_call_None Let_def tool_message_def)

lemma toString_call:
  "run_tool_calls env msgs [\<lparr> call_id = ''call_1'', fn_name = ''toString'', fn_arguments = ''{}'' \<rparr>]
     = Inr (msgs @ [\<lparr> role = Tool, content = [CHR 0x22] @ ''[object Undefined]'' @ [CHR 0x22],
                      tool_call_id = Some ''call_1'', tool_calls = None \<rparr>])"
  by (simp add: tool_result_def toolExecutors_def Object_prototype_call_def Let_def
        tool_message_def QuoteJSONString_def json_escape_def)

lemma proto_call:
  "run_tool_calls env msgs [\<lparr> call_id = ''call_1'', fn_name = ''__proto__'', fn_arguments = ''{}'' \<rparr>]
     = Inl (TypeError ''executor is not a function'')"
  by (simp add: tool_result_def toolExecutors_def Object_prototype_call_def Let_def)

lemma proto_run:
  "returned (runListingAgent proto_env ''system prompt'' ''condo in Laval'')
     = Inl (TypeError ''executor is not a function'')"
proof -
  have c: "callOpenAI proto_env 0 = Resolves [proto_turn]"
    by (simp add: proto_env_def)
  have k: "nonempty (OPENAI_API_KEY proto_env)"
    by (simp add: proto_env_def always_tools_env_def nonempty_def)
  show ?thesis
    unfolding runListingAgent_def using k
    by (simp add: agent_loop.simps [of _ _ _ 0] c MAX_AGENT_STEPS_def proto_turn_def proto_call
          Let_def del: run_tool_calls.simps)
qed

text \<open>
  Claim C8 on the code. \<open>toolExecutors\<close> is a plain object, and \<open>toolExecutors[name]\<close> also
  finds what it inherits from \<open>Object.prototype\<close>. For a tool call named \<open>toString\<close>, which
  is not a registered adapter, the inherited function is taken for the executor and called:
  the tool message holds its result, the JSON string \<open>"[object Undefined]"\<close>, and no
  \<open>Unknown tool\<close> error. For one named \<open>__proto__\<close> the lookup gives an object that is not
  callable: the call throws, outside any \<open>try\<close>, and \<open>runListingAgent\<close> rejects instead
  of going on to the next turn.
\<close>

theorem C8_inherited_name_taken_for_executor:
  "run_tool_calls env msgs [\<lparr> call_id = ''call_1'', fn_name = ''toString'', fn_arguments = ''{}'' \<rparr>]
     = Inr (msgs @ [\<lparr> role = Tool, content = [CHR 0x22] @ ''[object Undefined]'' @ [CHR 0x22],
                      tool_call_id = Some ''call_1'', tool_calls = None \<rparr>])
   \<and> run_tool_calls env msgs [\<lparr> call_id = ''call_1'', fn_name = ''__proto__'', fn_arguments = ''{}'' \<rparr>]
     = Inl (TypeError ''executor is not a function'')
   \<and> returned (runListingAgent proto_env ''system prompt'' ''condo in Laval'')
     = Inl (TypeError ''executor is not a function'')"
  using toString_call [of env msgs] proto_call [of env msgs] proto_run by simp

section \<open>The workflow\<close>

text \<open>
  Claim C9. For every workflow input on which the guardrail check reports no tripwire, the
  object \<open>runWorkflow\<close> returns has an \<open>output_text\<close> equal to \<open>JSON.stringify\<close> of its
  \<open>output_parsed\<close>, and \<open>output_parsed.hasResults\<close> is \<open>true\<close> exactly when the list the
  normalizer returned for \<open>input_variables.listings\<close> is not empty.
\<close>

theorem C9_output_text_serialises_output_parsed:
  assumes "\<not> guardrailsHasTripwire guardrailsResult"
    and "runWorkflow guardrailsResult workflow = Inr ret"
  shows "\<exists>ls. normalizeAndDedupeListings
                (listingsInput (if nullish (input_variables workflow) then JObj []
                                else input_variables workflow)) = Inr ls
           \<and> ret = WorkflowOutput (JSON_stringify (output_parsed ret)) (output_parsed ret)
           \<and> output_text ret = JSON_stringify (output_parsed ret)
           \<and> get (output_parsed ret) ''hasResults'' = JBool (ls \<noteq> [])"
  using assms
  by (auto simp: runWorkflow_def Let_def build_output_def get_def split: sum.splits)

lemma scenario_normalizes:
  "normalizeAndDedupeListings [scenario_listing] = Inr [scenario_normalized]"
proof -
  have n: "normalize_record scenario_listing = Inr scenario_normalized"
    by (simp add: scenario_listing_def scenario_normalized_def normalize_record_def price_field_def
          get_def nullish_def ToNumber_def resolve_mls_def mls_aliases_def first_def truthy_def
          text_field_def count_field_def bare_def trim_def is_space_def)
  have r: "is_record scenario_listing"
    by (simp add: scenario_listing_def is_record_def truthy_def typeof_def)
  have "normalizeAndDedupeListings [scenario_listing] = Inr (take MAX_LISTINGS [scenario_normalized])"
    by (rule normalize_no_merge) (simp_all add: r n List.map_filter_simps split: option.splits)
  then show ?thesis by (simp add: MAX_LISTINGS_def)
qed

text \<open>The request of the specification's scenario, with one listing among its variables.\<close>

theorem C9_output_text_serialises_output_parsed_witness:
  "\<not> guardrailsHasTripwire []
   \<and> runWorkflow [] scenario_input
       = Inr (WorkflowOutput
                (JSON_stringify (build_output scenario_input (input_variables scenario_input) [scenario_normalized]))
                (build_output scenario_input (input_variables scenario_input) [scenario_normalized]))
   \<and> get (build_output scenario_input (input_variables scenario_input) [scenario_normalized]) ''hasResults''
       = JBool True"
proof -
  let ?out = "build_output scenario_input (input_variables scenario_input) [scenario_normalized]"
  have g: "\<not> guardrailsHasTripwire []"
    by (simp add: guardrailsHasTripwire_def)
  have v: "\<not> nullish (input_variables scenario_input)"
    by (simp add: scenario_input_def nullish_def)
  have li: "listingsInput (input_variables scenario_input) = [scenario_listing]"
    by (simp add: scenario_input_def listingsInput_def get_def)
  have run: "runWorkflow [] scenario_input = Inr (WorkflowOutput (JSON_stringify ?out) ?out)"
    by (simp add: runWorkflow_def g v li scenario_normalizes Let_def)
  from C9_output_text_serialises_output_parsed [OF g run] v li scenario_normalizes
  have "get ?out ''hasResults'' = JBool True"
    by simp
  with g run show ?thesis by simp
qed

text \<open>Without a tripwire the workflow rejects only when the normalizer throws.\<close>

lemma runWorkflow_rejects:
  assumes "runWorkflow guardrailsResult workflow = Inl e"
  shows "\<not> guardrailsHasTripwire guardrailsResult
         \<and> normalizeAndDedupeListings
              (listingsInput (if nullish (input_variables workflow) then JObj []
                              else input_variables workflow)) = Inl e"
  using assms
  by (auto simp: runWorkflow_def Let_def split: if_splits sum.splits)

section \<open>The step budget of the agent loop\<close>









section \<open>Normalizing the output again\<close>































end
